theory Spec2Isabelle
  imports Main "HOL-Library.AList"
begin

section \<open>JavaScript values handled by the schema field\<close>

text \<open>
  Document data is JSON-like. A plain object is the list of its own enumerable
  properties, in property order; numbers are integers (no NaN, no fractions).
  Arrays and functions are not values of this universe, and property names that are
  inherited from the built-in prototypes (\<open>toString\<close>, \<open>constructor\<close>, \<open>__proto__\<close>)
  are not modelled: a lookup sees own properties only.
\<close>

datatype jsval =
    Undefined
  | Null
  | Bool bool
  | Num int
  | Str string
  | Obj "(string \<times> jsval) list"

datatype failure = Failure string

datatype error =
    Error string
  | TypeError string
  | ModelValidationError "(string \<times> failure) list"

text \<open>\<open>!value\<close> is \<open>\<not> truthy value\<close>.\<close>

fun truthy :: "jsval \<Rightarrow> bool" where
  "truthy Undefined = False"
| "truthy Null = False"
| "truthy (Bool b) = b"
| "truthy (Num n) = (n \<noteq> 0)"
| "truthy (Str s) = (s \<noteq> [])"
| "truthy (Obj ps) = True"

text \<open>\<open>a ?? b\<close>\<close>

definition nullish :: "jsval \<Rightarrow> bool" where
  "nullish v = (v = Undefined \<or> v = Null)"

definition nullish_or :: "jsval \<Rightarrow> jsval \<Rightarrow> jsval" where
  "nullish_or a b = (if nullish a then b else a)"

text \<open>Decimal numerals, for the index properties of a string.\<close>

definition digit_char :: "nat \<Rightarrow> char" where
  "digit_char d = char_of (48 + d)"

fun show_nat :: "nat \<Rightarrow> string" where
  "show_nat n = (if n < 10 then [digit_char n] else show_nat (n div 10) @ [digit_char (n mod 10)])"

declare show_nat.simps [simp del]

text \<open>
  \<open>Object.keys(v)\<close>: the own enumerable property names. It throws on \<open>undefined\<close> and
  \<open>null\<close>; a number or boolean has none; a string has its indices.
\<close>

fun Object_keys :: "jsval \<Rightarrow> error + string list" where
  "Object_keys Undefined = Inl (TypeError ''Cannot convert undefined or null to object'')"
| "Object_keys Null = Inl (TypeError ''Cannot convert undefined or null to object'')"
| "Object_keys (Bool b) = Inr []"
| "Object_keys (Num n) = Inr []"
| "Object_keys (Str s) = Inr (map show_nat [0..<length s])"
| "Object_keys (Obj ps) = Inr (map fst ps)"

text \<open>\<open>Object.entries(v)\<close>: the own enumerable properties with their values.\<close>

fun Object_entries :: "jsval \<Rightarrow> error + (string \<times> jsval) list" where
  "Object_entries Undefined = Inl (TypeError ''Cannot convert undefined or null to object'')"
| "Object_entries Null = Inl (TypeError ''Cannot convert undefined or null to object'')"
| "Object_entries (Bool b) = Inr []"
| "Object_entries (Num n) = Inr []"
| "Object_entries (Str s) = Inr (map (\<lambda>i. (show_nat i, Str [s ! i])) [0..<length s])"
| "Object_entries (Obj ps) = Inr ps"

text \<open>\<open>v[key]\<close>, a property read.\<close>

fun prop_get :: "jsval \<Rightarrow> string \<Rightarrow> error + jsval" where
  "prop_get Undefined key = Inl (TypeError ''Cannot read properties of undefined'')"
| "prop_get Null key = Inl (TypeError ''Cannot read properties of null'')"
| "prop_get (Bool b) key = Inr Undefined"
| "prop_get (Num n) key = Inr Undefined"
| "prop_get (Str s) key =
     (if key = ''length'' then Inr (Num (int (length s)))
      else case find (\<lambda>i. show_nat i = key) [0..<length s] of
             None \<Rightarrow> Inr Undefined
           | Some i \<Rightarrow> Inr (Str [s ! i]))"
| "prop_get (Obj ps) key = (case map_of ps key of None \<Rightarrow> Inr Undefined | Some v \<Rightarrow> Inr v)"

text \<open>
  \<open>v[key] = x\<close>, a property write (the module is strict code, so a write to a
  primitive throws). On an object the property is replaced where it stands, or added
  at the end. (An engine lists the keys that are array indices first, in numeric
  order; the statements below are about key sets and about the values under the keys,
  not about the position of an added key.)
\<close>

fun prop_set :: "jsval \<Rightarrow> string \<Rightarrow> jsval \<Rightarrow> error + jsval" where
  "prop_set (Obj ps) key x = Inr (Obj (AList.update key x ps))"
| "prop_set Undefined key x = Inl (TypeError ''Cannot set properties of undefined'')"
| "prop_set Null key x = Inl (TypeError ''Cannot set properties of null'')"
| "prop_set v key x = Inl (TypeError ''Cannot create property'')"



section \<open>MappingField\<close>

text \<open>
  The contained \<open>DataField\<close> is host code: the field only calls its methods. Each
  method is taken with the \<open>options\<close> (and \<open>model\<close>) arguments that the caller passes
  through already applied. \<open>validate\<close> returns a failure or \<open>undefined\<close> (\<open>None\<close>).
\<close>

record datafield =
  df_clean :: "jsval \<Rightarrow> jsval"
  df_getInitialValue :: "jsval \<Rightarrow> jsval"
  df_validate :: "jsval \<Rightarrow> failure option"
  df_initialize :: "jsval \<Rightarrow> jsval"

text \<open>The option \<open>initialKeys\<close>: \<open>null\<close>, an array of keys, or an object whose keys count.\<close>

datatype initial_keys =
    IKNull
  | IKArray "string list"
  | IKObject "(string \<times> jsval) list"

type_synonym initial_value_builder = "string \<Rightarrow> jsval \<Rightarrow> jsval \<Rightarrow> jsval"

text \<open>
  A constructed field. \<open>super_getInitialValue\<close> is the inherited
  \<open>ObjectField.getInitialValue\<close> of the host, a function of the supplied data.
\<close>

record mappingfield =
  model :: datafield
  initialKeys :: initial_keys
  initialValue :: "initial_value_builder option"
  initialKeysOnly :: bool
  super_getInitialValue :: "jsval \<Rightarrow> jsval"

text \<open>
  The constructor's arguments. Its first argument either is an instance of the host's
  \<open>DataField\<close> or is some other value; the options are merged over \<open>_defaults\<close> by
  the base class constructor.
\<close>

datatype ctor_arg =
    DataFieldInstance datafield
  | NotDataField jsval

record mappingfield_options =
  opt_initialKeys :: "initial_keys option"
  opt_initialValue :: "initial_value_builder option"
  opt_initialKeysOnly :: "bool option"
  opt_super_getInitialValue :: "jsval \<Rightarrow> jsval"

definition defaults_initialKeys :: initial_keys where
  "defaults_initialKeys = IKNull"

definition defaults_initialKeysOnly :: bool where
  "defaults_initialKeysOnly = False"

definition constructor :: "ctor_arg \<Rightarrow> mappingfield_options \<Rightarrow> error + mappingfield" where
  "constructor m options =
     (case m of
        NotDataField v \<Rightarrow> Inl (Error ''MappingField must have a DataField as its contained element'')
      | DataFieldInstance d \<Rightarrow>
          Inr \<lparr> model = d,
                initialKeys = (case opt_initialKeys options of None \<Rightarrow> defaults_initialKeys | Some k \<Rightarrow> k),
                initialValue = opt_initialValue options,
                initialKeysOnly = (case opt_initialKeysOnly options of None \<Rightarrow> defaults_initialKeysOnly | Some b \<Rightarrow> b),
                super_getInitialValue = opt_super_getInitialValue options \<rparr>)"

text \<open>
  \<open>_cleanType(value, options)\<close>: the entries are read once, then every one of them is
  written back cleaned, into the same object, which is returned.
\<close>

fun cleanType_loop :: "mappingfield \<Rightarrow> (string \<times> jsval) list \<Rightarrow> jsval \<Rightarrow> error + jsval" where
  "cleanType_loop f [] value = Inr value"
| "cleanType_loop f ((k, v) # rest) value =
     (case prop_set value k (df_clean (model f) v) of
        Inl e \<Rightarrow> Inl e
      | Inr value' \<Rightarrow> cleanType_loop f rest value')"

definition cleanType :: "mappingfield \<Rightarrow> jsval \<Rightarrow> error + jsval" where
  "cleanType f value =
     (case Object_entries value of
        Inl e \<Rightarrow> Inl e
      | Inr entries \<Rightarrow> cleanType_loop f entries value)"

text \<open>\<open>_getInitialValueForKey(key, object)\<close>\<close>

definition getInitialValueForKey :: "mappingfield \<Rightarrow> string \<Rightarrow> jsval \<Rightarrow> jsval" where
  "getInitialValueForKey f key object =
     (let initial = df_getInitialValue (model f) Undefined
      in case initialValue f of
           None \<Rightarrow> initial
         | Some builder \<Rightarrow> nullish_or (builder key initial object) initial)"

text \<open>The keys named by \<open>initialKeys\<close>: the array itself, else \<open>Object.keys(initialKeys ?? {})\<close>.\<close>

fun seed_keys :: "initial_keys \<Rightarrow> string list" where
  "seed_keys IKNull = []"
| "seed_keys (IKArray ks) = ks"
| "seed_keys (IKObject ps) = map fst ps"






text \<open>\<open>initialize(value, model, options)\<close>\<close>

fun initialize_loop ::
  "mappingfield \<Rightarrow> jsval \<Rightarrow> string list \<Rightarrow> (string \<times> jsval) list \<Rightarrow> error + jsval" where
  "initialize_loop f value [] obj = Inr (Obj obj)"
| "initialize_loop f value (key # keys) obj =
     (case prop_get value key of
        Inl e \<Rightarrow> Inl e
      | Inr x \<Rightarrow>
          (let data = nullish_or x (getInitialValueForKey f key value)
           in initialize_loop f value keys (AList.update key (df_initialize (model f) data) obj)))"

definition initialize :: "mappingfield \<Rightarrow> jsval \<Rightarrow> error + jsval" where
  "initialize f value =
     (if \<not> truthy value then Inr value
      else case (if initialKeysOnly f then Inr (seed_keys (initialKeys f)) else Object_keys value) of
             Inl e \<Rightarrow> Inl e
           | Inr keys \<Rightarrow> initialize_loop f value keys [])"

section \<open>ItemPbta: the playbook registry\<close>

text \<open>
  \<open>CONFIG.PBTA.playbooks\<close> is a JavaScript array of summaries. An array is its
  elements together with the own properties that are not indices: a write to the key
  \<open>-1\<close> does not touch the elements or the length, it creates the property \<open>"-1"\<close>.
\<close>

record summary =
  p_name :: string
  p_slug :: "string option"
  p_uuid :: string
  p_actorType :: "string option"

record playbooks =
  elems :: "summary list"
  props :: "(string \<times> summary) list"

text \<open>
  The owning actor's \<open>getRollFormula\<close> belongs to the actor document, whose code is not
  part of these sources: it is a function of the default formula, with \<open>None\<close> for a
  nullish result.
\<close>

record actor =
  actor_getRollFormula :: "string \<Rightarrow> string option"

record item_system =
  slug :: "string option"
  actorType :: "string option"
  rollType :: "string option"
  rollFormula :: "string option"

record item =
  itype :: string
  name :: string
  uuid :: string
  system :: item_system
  actor :: "actor option"

definition summary_of :: "item \<Rightarrow> summary" where
  "summary_of this =
     \<lparr> p_name = name this, p_slug = slug (system this), p_uuid = uuid this,
       p_actorType = actorType (system this) \<rparr>"

text \<open>\<open>Array.prototype.findIndex\<close>; \<open>None\<close> stands for the result \<open>-1\<close>.\<close>

fun findIndex_from :: "('a \<Rightarrow> bool) \<Rightarrow> 'a list \<Rightarrow> nat \<Rightarrow> nat option" where
  "findIndex_from P [] i = None"
| "findIndex_from P (x # xs) i = (if P x then Some i else findIndex_from P xs (Suc i))"

definition findIndex :: "('a \<Rightarrow> bool) \<Rightarrow> 'a list \<Rightarrow> nat option" where
  "findIndex P xs = findIndex_from P xs 0"

text \<open>
  The hooks, as functions of the registry. The calls to the base class
  (\<open>super._onCreate\<close>, \<open>super._onUpdate\<close>, \<open>super._onDelete\<close>) are host code and do not
  reach the registry.
\<close>

definition onCreate :: "item \<Rightarrow> playbooks \<Rightarrow> playbooks" where
  "onCreate this reg =
     (if itype this = ''playbook'' then reg\<lparr>elems := elems reg @ [summary_of this]\<rparr> else reg)"

definition onUpdate :: "item \<Rightarrow> playbooks \<Rightarrow> playbooks" where
  "onUpdate this reg =
     (if itype this = ''playbook'' then
        (case findIndex (\<lambda>p. p_uuid p = uuid this) (elems reg) of
           None \<Rightarrow> reg\<lparr>props := AList.update ''-1'' (summary_of this) (props reg)\<rparr>
         | Some index \<Rightarrow> reg\<lparr>elems := (elems reg)[index := summary_of this]\<rparr>)
      else reg)"

text \<open>\<open>filter\<close> builds a new array: it has the kept elements and no other property.\<close>

definition onDelete :: "item \<Rightarrow> playbooks \<Rightarrow> playbooks" where
  "onDelete this reg =
     (if itype this = ''playbook'' then
        \<lparr> elems = filter (\<lambda>p. p_uuid p \<noteq> uuid this) (elems reg), props = [] \<rparr>
      else reg)"

section \<open>ItemPbta: the roll formula\<close>

text \<open>
  Strings are lists of 8-bit characters, read as the code units below 256. White space
  (\<open>\s\<close> in a pattern, and what \<open>trim\<close> removes) is then tab, line feed, vertical tab,
  form feed, carriage return, space and the no-break space; the line terminators that
  \<open>.\<close> does not match are line feed and carriage return.
\<close>

definition whitespace :: "char \<Rightarrow> bool" where
  "whitespace c = (of_char c \<in> {9, 10, 11, 12, 13, 32, 160 :: nat})"

definition line_terminator :: "char \<Rightarrow> bool" where
  "line_terminator c = (of_char c \<in> {10, 13 :: nat})"

definition digit :: "char \<Rightarrow> bool" where
  "digit c = (48 \<le> (of_char c :: nat) \<and> (of_char c :: nat) \<le> 57)"

definition trim :: "string \<Rightarrow> string" where
  "trim s = rev (dropWhile whitespace (rev (dropWhile whitespace s)))"



section \<open>ItemPbta: the shift action of a chat card\<close>

text \<open>
  The handler patches the rendered text of the message with three patterns. Each is
  modelled by the search it performs: the leftmost position where the pattern matches,
  and there the greedy choice.
\<close>

definition starts_with :: "string \<Rightarrow> string \<Rightarrow> bool" where
  "starts_with s p = (take (length p) s = p)"

text \<open>The last position of \<open>s\<close> at which \<open>pat\<close> starts.\<close>

definition lastIndexOf :: "string \<Rightarrow> string \<Rightarrow> nat option" where
  "lastIndexOf pat s =
     (case filter (\<lambda>j. starts_with (drop j s) pat) (rev [0..<Suc (length s)]) of
        [] \<Rightarrow> None
      | j # _ \<Rightarrow> Some j)"

text \<open>
  A pattern \<open>opening(.*)closing\<close> tried at the start of \<open>s\<close>: \<open>.*\<close> stays on the line
  and is greedy, so the group ends at the last \<open>closing\<close> of that line.
\<close>

definition match_block :: "string \<Rightarrow> string \<Rightarrow> string \<Rightarrow> string option" where
  "match_block opening closing s =
     (if starts_with s opening then
        (let line = takeWhile (\<lambda>c. \<not> line_terminator c) (drop (length opening) s)
         in map_option (\<lambda>j. take j line) (lastIndexOf closing line))
      else None)"

text \<open>The leftmost match: its position and its group.\<close>

fun search_block :: "string \<Rightarrow> string \<Rightarrow> string \<Rightarrow> nat \<Rightarrow> (nat \<times> string) option" where
  "search_block opening closing [] i =
     (case match_block opening closing [] of Some grp \<Rightarrow> Some (i, grp) | None \<Rightarrow> None)"
| "search_block opening closing (c # s) i =
     (case match_block opening closing (c # s) of
        Some grp \<Rightarrow> Some (i, grp)
      | None \<Rightarrow> search_block opening closing s (Suc i))"

text \<open>\<open>plusMinusReg = /([+-]\s*\d)/\<close>: a sign, white space, and one digit.\<close>

definition match_plusMinus :: "string \<Rightarrow> string option" where
  "match_plusMinus s =
     (case s of
        [] \<Rightarrow> None
      | c # rest \<Rightarrow>
          if c = CHR ''+'' \<or> c = CHR ''-'' then
            (let ws = takeWhile whitespace rest
             in case drop (length ws) rest of
                  [] \<Rightarrow> None
                | d # _ \<Rightarrow> if digit d then Some (c # ws @ [d]) else None)
          else None)"

fun search_plusMinus :: "string \<Rightarrow> nat \<Rightarrow> (nat \<times> string) option" where
  "search_plusMinus [] i = None"
| "search_plusMinus (c # s) i =
     (case match_plusMinus (c # s) of
        Some m \<Rightarrow> Some (i, m)
      | None \<Rightarrow> search_plusMinus s (Suc i))"

definition diceFormula_open :: string where
  "diceFormula_open = ''<div class=\"dice-formula\">''"

definition diceFormula_close :: string where
  "diceFormula_close = ''</div>''"

definition diceTotal_open :: string where
  "diceTotal_open = ''<h4 class=\"dice-total\">''"

definition diceTotal_close :: string where
  "diceTotal_close = ''</h4>''"

text \<open>
  \<open>s.replace(pat, rep)\<close> with a string pattern replaces the first occurrence of \<open>pat\<close>;
  the replacement is taken literally (it holds no \<open>$\<close> here).
\<close>

fun indexOf_from :: "string \<Rightarrow> string \<Rightarrow> nat \<Rightarrow> nat option" where
  "indexOf_from pat [] i = (if pat = [] then Some i else None)"
| "indexOf_from pat (c # s) i =
     (if starts_with (c # s) pat then Some i else indexOf_from pat s (Suc i))"

definition replace_first :: "string \<Rightarrow> string \<Rightarrow> string \<Rightarrow> string" where
  "replace_first s pat rep =
     (case indexOf_from pat s 0 of
        None \<Rightarrow> s
      | Some i \<Rightarrow> take i s @ rep @ drop (i + length pat) s)"

text \<open>Integers as text, and text as integers: an optional sign, white space, digits.\<close>

definition show_int :: "int \<Rightarrow> string" where
  "show_int n = (if n < 0 then CHR ''-'' # show_nat (nat (- n)) else show_nat (nat n))"

definition digits_value :: "string \<Rightarrow> nat" where
  "digits_value ds = foldl (\<lambda>acc c. 10 * acc + (of_char c - 48)) 0 ds"

definition parse_int :: "string \<Rightarrow> int option" where
  "parse_int s =
     (let t = trim s;
          (sign, rest) = (case t of
                            [] \<Rightarrow> (1, [])
                          | c # cs \<Rightarrow> if c = CHR ''-'' then (- 1, dropWhile whitespace cs)
                                      else if c = CHR ''+'' then (1, dropWhile whitespace cs)
                                      else (1 :: int, t))
      in if rest \<noteq> [] \<and> list_all digit rest then Some (sign * int (digits_value rest)) else None)"

text \<open>
  \<open>Roll.safeEval(`${a} + ${k}`)\<close>, the host's evaluator on the text the handler builds:
  with \<open>a\<close> blank the text is \<open>+ k\<close>; with \<open>a\<close> an integer it is a sum. On any other text
  the model gives \<open>None\<close>: the host throws, or evaluates an expression that is not
  interpreted here.
\<close>

definition safeEval_plus :: "string \<Rightarrow> int \<Rightarrow> int option" where
  "safeEval_plus a k =
     (if trim a = [] then Some k else map_option (\<lambda>n. n + k) (parse_int a))"

text \<open>
  Lines 298 to 316 of \<open>_onChatCardAction\<close>, as a function of the action and of the
  content of the message. \<open>Inr None\<close>: the content has no formula block and nothing is
  done. \<open>Inl e\<close>: an exception, which the handler catches and logs, so that the message
  keeps its content. \<open>Inr (Some c)\<close>: the content that goes on to \<open>message.update\<close>.
\<close>

definition shift_content :: "string \<Rightarrow> string \<Rightarrow> error + string option" where
  "shift_content action content =
     (case search_block diceFormula_open diceFormula_close content 0 of
        None \<Rightarrow> Inr None
      | Some (i, roll) \<Rightarrow>
          (let plusMinusMatch = search_plusMinus roll 0;
               val = (case plusMinusMatch of None \<Rightarrow> [] | Some (j, m) \<Rightarrow> m);
               shift = (if action = ''shiftUp'' then 1 else - 1)
           in case safeEval_plus val shift of
                None \<Rightarrow> Inl (Error ''Roll.safeEval'')
              | Some newValue \<Rightarrow>
                  (let updatedValue =
                         (if newValue \<ge> 0 then ''+ '' @ show_int newValue
                          else ''- '' @ show_int (abs newValue));
                       roll' = (case plusMinusMatch of
                                  None \<Rightarrow> roll @ '' '' @ updatedValue
                                | Some (j, m) \<Rightarrow> take j roll @ updatedValue @ drop (j + length m) roll);
                       content' = replace_first content roll roll'
                   in case search_block diceTotal_open diceTotal_close content' 0 of
                        None \<Rightarrow> Inl (TypeError ''Cannot read properties of null'')
                      | Some (k, t) \<Rightarrow>
                          (case safeEval_plus t shift of
                             None \<Rightarrow> Inl (Error ''Roll.safeEval'')
                           | Some total' \<Rightarrow>
                               Inr (Some (take k content'
                                     @ diceTotal_open @ show_int total' @ diceTotal_close
                                     @ drop (k + length diceTotal_open + length t + length diceTotal_close)
                                         content'))))))"

section \<open>Sample fields, documents and messages\<close>

text \<open>
  A record shape in the manner of the move results: it trims a string on cleaning,
  accepts objects only, and its default is a blank record.
\<close>

definition example_model :: datafield where
  "example_model =
     \<lparr> df_clean = (\<lambda>v. case v of Str s \<Rightarrow> Str (trim s) | _ \<Rightarrow> v),
       df_getInitialValue = (\<lambda>data. Obj [(''key'', Str ''''), (''label'', Str ''''), (''value'', Str '''')]),
       df_validate = (\<lambda>v. case v of Obj ps \<Rightarrow> None | _ \<Rightarrow> Some (Failure ''must be an object'')),
       df_initialize = (\<lambda>v. v) \<rparr>"

definition example_field :: "initial_keys \<Rightarrow> bool \<Rightarrow> mappingfield" where
  "example_field ks only =
     \<lparr> model = example_model, initialKeys = ks, initialValue = None,
       initialKeysOnly = only, super_getInitialValue = (\<lambda>data. Obj []) \<rparr>"


text \<open>A record shape whose cleaning escapes the ampersand of a text.\<close>

definition escape_amp :: "string \<Rightarrow> string" where
  "escape_amp s = concat (map (\<lambda>c. if c = CHR ''&'' then ''&amp;'' else [c]) s)"

definition escaping_model :: datafield where
  "escaping_model = example_model \<lparr> df_clean := (\<lambda>v. case v of Str s \<Rightarrow> Str (escape_amp s) | _ \<Rightarrow> v) \<rparr>"

definition escaping_field :: mappingfield where
  "escaping_field = (example_field IKNull False) \<lparr> model := escaping_model \<rparr>"

definition example_playbook :: item where
  "example_playbook =
     \<lparr> itype = ''playbook'', name = ''The Driver'', uuid = ''Item.abc'',
       system = \<lparr> slug = Some ''the-driver'', actorType = Some ''character'',
                  rollType = None, rollFormula = None \<rparr>,
       actor = None \<rparr>"

definition other_summary :: summary where
  "other_summary =
     \<lparr> p_name = ''The Angel'', p_slug = Some ''the-angel'', p_uuid = ''Item.xyz'',
       p_actorType = Some ''character'' \<rparr>"

definition example_registry :: playbooks where
  "example_registry = \<lparr> elems = [other_summary], props = [] \<rparr>"



text \<open>The roll part of a chat card: a formula with the modifier \<open>m\<close>, and a total.\<close>

definition example_card :: "string \<Rightarrow> string \<Rightarrow> string" where
  "example_card m t =
     ''<div class=\"dice-formula\">2d6 + '' @ m @ ''</div>'' @ [CHR 0x0A]
     @ ''<h4 class=\"dice-total\">'' @ t @ ''</h4>''"

section \<open>MappingField: properties\<close>

subsection \<open>initialize\<close>






text \<open>
  An empty object is truthy: it is not returned as it is, it goes through the loop over
  the keys.
\<close>

lemma initialize_empty_object_example:
  "initialize (example_field (IKArray [''success'']) True) (Obj [])
     = Inr (Obj [(''success'', Obj [(''key'', Str ''''), (''label'', Str ''''), (''value'', Str '''')])])"
  by (simp add: initialize_def example_field_def example_model_def getInitialValueForKey_def
      nullish_or_def nullish_def)

subsection \<open>The constructor\<close>

text \<open>
  C9. With a first argument that is not a \<open>DataField\<close>, the constructor throws: its
  result is the error, and no field.
\<close>

theorem constructor_rejects:
  "constructor (NotDataField v) options
     = Inl (Error ''MappingField must have a DataField as its contained element'')"
  by (simp add: constructor_def)

subsection \<open>getInitialValue\<close>





subsection \<open>Validation\<close>






subsection \<open>Cleaning\<close>

lemma update_middle:
  "k \<notin> fst ` set xs \<Longrightarrow> AList.update k x (xs @ (k, y) # zs) = xs @ (k, x) # zs"
  by (induction xs) auto

lemma cleanType_loop_distinct:
  "distinct (map fst (xs @ ys)) \<Longrightarrow>
   cleanType_loop f ys (Obj (xs @ ys)) = Inr (Obj (xs @ map (\<lambda>(k, v). (k, df_clean (model f) v)) ys))"
proof (induction ys arbitrary: xs)
  case Nil
  then show ?case by simp
next
  case (Cons p ys)
  obtain k v where p: "p = (k, v)" by (cases p)
  have notin: "k \<notin> fst ` set xs" using Cons.prems p by auto
  have d: "distinct (map fst ((xs @ [(k, df_clean (model f) v)]) @ ys))"
    using Cons.prems p by auto
  have "cleanType_loop f (p # ys) (Obj (xs @ p # ys))
      = cleanType_loop f ys (Obj ((xs @ [(k, df_clean (model f) v)]) @ ys))"
    using p notin by (simp add: update_middle)
  also have "\<dots> = Inr (Obj ((xs @ [(k, df_clean (model f) v)]) @ map (\<lambda>(k, v). (k, df_clean (model f) v)) ys))"
    using Cons.IH [OF d] .
  finally show ?case using p by simp
qed

lemma cleanType_Obj:
  "distinct (map fst ps) \<Longrightarrow> cleanType f (Obj ps) = Inr (Obj (map (\<lambda>(k, v). (k, df_clean (model f) v)) ps))"
  using cleanType_loop_distinct [of "[]" ps f] by (simp add: cleanType_def)

text \<open>
  C6, as amended. On a plain object (each key once) such that the contained field's
  \<open>clean\<close> is idempotent on the values of its entries, \<open>_cleanType\<close> is idempotent:
  cleaning the cleaned object returns it.
\<close>

theorem cleanType_idempotent:
  assumes "distinct (map fst ps)"
    and "\<forall>(k, v) \<in> set ps. df_clean (model f) (df_clean (model f) v) = df_clean (model f) v"
  shows "\<exists>ps'. cleanType f (Obj ps) = Inr (Obj ps') \<and> cleanType f (Obj ps') = Inr (Obj ps')"
proof -
  let ?ps' = "map (\<lambda>(k, v). (k, df_clean (model f) v)) ps"
  have keys: "map fst ?ps' = map fst ps" by (induction ps) auto
  have 1: "cleanType f (Obj ps) = Inr (Obj ?ps')"
    using assms(1) by (rule cleanType_Obj)
  have d': "distinct (map fst ?ps')"
    using assms(1) by (simp only: keys)
  have "cleanType f (Obj ?ps') = Inr (Obj (map (\<lambda>(k, v). (k, df_clean (model f) v)) ?ps'))"
    using d' by (rule cleanType_Obj)
  moreover have "map (\<lambda>(k, v). (k, df_clean (model f) v)) ?ps' = ?ps'"
    using assms(2) by (induction ps) auto
  ultimately show ?thesis using 1 by simp
qed

theorem cleanType_idempotent_witness:
  "cleanType (example_field IKNull False) (Obj [(''success'', Str '' yes ''), (''failure'', Num 2)])
     = Inr (Obj [(''success'', Str ''yes''), (''failure'', Num 2)])
   \<and> cleanType (example_field IKNull False) (Obj [(''success'', Str ''yes''), (''failure'', Num 2)])
     = Inr (Obj [(''success'', Str ''yes''), (''failure'', Num 2)])"
  using cleanType_idempotent [of "[(''success'', Str '' yes ''), (''failure'', Num 2)]"
      "example_field IKNull False"]
  by (simp add: cleanType_def example_field_def example_model_def trim_def whitespace_def)

text \<open>
  When the contained field's \<open>clean\<close> is not idempotent, neither is \<open>_cleanType\<close>.
\<close>

theorem cleanType_escaping_counterexample:
  "cleanType escaping_field (Obj [(''label'', Str ''a&b'')]) = Inr (Obj [(''label'', Str ''a&amp;b'')])
   \<and> cleanType escaping_field (Obj [(''label'', Str ''a&amp;b'')])
     = Inr (Obj [(''label'', Str ''a&amp;amp;b'')])"
  by (simp add: cleanType_def escaping_field_def escaping_model_def example_field_def
      example_model_def escape_amp_def)

section \<open>ItemPbta: properties\<close>

subsection \<open>The playbook registry\<close>




lemma stray_property_example:
  "props (onUpdate example_playbook example_registry) = [(''-1'', summary_of example_playbook)]"
  by (simp add: onUpdate_def findIndex_def example_playbook_def example_registry_def other_summary_def)

text \<open>
  C7. After \<open>_onCreate\<close>, \<open>_onUpdate\<close> and \<open>_onDelete\<close> of one playbook (the same uuid at
  each hook, whatever its other fields have become), the registry holds no summary
  with that uuid, neither as an element nor under another property.
\<close>

theorem create_update_delete:
  assumes "itype d1 = ''playbook''" and "itype d2 = ''playbook''" and "itype d3 = ''playbook''"
    and "uuid d2 = uuid d1" and "uuid d3 = uuid d1"
  shows "\<forall>p \<in> set (elems (onDelete d3 (onUpdate d2 (onCreate d1 reg))))
             \<union> snd ` set (props (onDelete d3 (onUpdate d2 (onCreate d1 reg)))). p_uuid p \<noteq> uuid d1"
  using assms by (simp add: onDelete_def)

theorem create_update_delete_witness:
  "onDelete (example_playbook\<lparr>name := ''The Chopper''\<rparr>)
     (onUpdate (example_playbook\<lparr>name := ''The Chopper''\<rparr>) (onCreate example_playbook example_registry))
   = example_registry
   \<and> map p_uuid (elems example_registry) = [''Item.xyz'']"
  using create_update_delete [of example_playbook "example_playbook\<lparr>name := ''The Chopper''\<rparr>"
      "example_playbook\<lparr>name := ''The Chopper''\<rparr>" example_registry]
  by (simp add: example_playbook_def example_registry_def other_summary_def onDelete_def onUpdate_def
      onCreate_def findIndex_def summary_of_def)

subsection \<open>The roll formula\<close>



subsection \<open>The shift action\<close>

text \<open>
  A shift is meant to move the total and the modifier of the formula by one. With a
  modifier of one digit it does.
\<close>

lemma shift_content_one_digit:
  "shift_content ''shiftUp'' (example_card ''1'' ''9'') = Inr (Some (example_card ''2'' ''10''))"
  by code_simp

text \<open>
  C10, at a modifier of two digits: the pattern takes the sign and the first digit
  only, so shifting \<open>2d6 + 10\<close> up gives the total 18 and the formula \<open>2d6 + 20\<close>.
\<close>

theorem shift_content_two_digits:
  "shift_content ''shiftUp'' (example_card ''10'' ''17'') = Inr (Some (example_card ''20'' ''18''))"
  by code_simp

end
